theory Spec2Isabelle
  imports Main "HOL-Library.Word"
begin

section \<open>Python values held in the state dictionary\<close>

text \<open>
  The state dictionary of an entity is filled by the hub's notification callbacks and is
  typed \<^verbatim>\<open>Any\<close>. The values it may hold are modelled by \<open>pyval\<close>. A float is kept
  abstractly: a finite float is \<open>m * 2 ^ e\<close> for a mantissa \<open>m\<close> and an exponent \<open>e\<close>;
  only what \<^verbatim>\<open>int()\<close> does with a float is modelled, no float arithmetic.
  \<open>PObj c\<close> is an instance of a class named \<open>c\<close> that is neither a sequence nor
  convertible by \<^verbatim>\<open>int()\<close> (a dict, a set, a plain object).
\<close>

datatype pyfloat = Finite int int | PosInf | NegInf | NaN

datatype pyval =
    PNone
  | PBool bool
  | PInt int
  | PFloat pyfloat
  | PStr string
  | PTuple "pyval list"
  | PList "pyval list"
  | PObj string

datatype pyerr = KeyError | ValueError | TypeError | OverflowError

text \<open>\<^verbatim>\<open>type(v)\<close>, by the name of the class.\<close>

fun py_type :: "pyval \<Rightarrow> string" where
  "py_type PNone = ''NoneType''"
| "py_type (PBool _) = ''bool''"
| "py_type (PInt _) = ''int''"
| "py_type (PFloat _) = ''float''"
| "py_type (PStr _) = ''str''"
| "py_type (PTuple _) = ''tuple''"
| "py_type (PList _) = ''list''"
| "py_type (PObj c) = c"

text \<open>
  \<^verbatim>\<open>int(float)\<close> truncates a finite float towards zero, raises ValueError on a NaN and
  OverflowError on an infinity.
\<close>

definition float_trunc :: "int \<Rightarrow> int \<Rightarrow> int" where
  "float_trunc m e =
     (if 0 \<le> e then m * 2 ^ nat e else sgn m * (\<bar>m\<bar> div 2 ^ nat (- e)))"

text \<open>
  The builtin \<^verbatim>\<open>int(v)\<close>. How Python reads an integer literal out of a string is not
  part of this repository: it is the parameter \<open>parse\<close>, whose \<open>None\<close> is the builtin's
  ValueError.
\<close>

fun py_int :: "(string \<Rightarrow> int option) \<Rightarrow> pyval \<Rightarrow> pyerr + int" where
  "py_int parse (PInt i) = Inr i"
| "py_int parse (PBool b) = Inr (if b then 1 else 0)"
| "py_int parse (PFloat (Finite m e)) = Inr (float_trunc m e)"
| "py_int parse (PFloat NaN) = Inl ValueError"
| "py_int parse (PFloat PosInf) = Inl OverflowError"
| "py_int parse (PFloat NegInf) = Inl OverflowError"
| "py_int parse (PStr s) = (case parse s of Some i \<Rightarrow> Inr i | None \<Rightarrow> Inl ValueError)"
| "py_int parse PNone = Inl TypeError"
| "py_int parse (PTuple _) = Inl TypeError"
| "py_int parse (PList _) = Inl TypeError"
| "py_int parse (PObj _) = Inl TypeError"

section \<open>The hub and the logger\<close>

text \<open>
  What the adapters do to the outside is a call of the hub's \<^verbatim>\<open>write_by_name\<close> or a
  warning given to the module's logger. Both are kept in one record that every command
  takes and returns: the writes issued so far, oldest first, and the warnings logged so
  far, oldest first.
\<close>

datatype plctype = PLCTYPE_BOOL | PLCTYPE_UINT | PLCTYPE_ARR_UINT nat

datatype wvalue = WBool bool | WInt int | WArr "16 word list"

record hub_write =
  wr_name :: string
  wr_value :: wvalue
  wr_type :: plctype

datatype warning =
    Non_integer_values pyval
  | Values_out_of_range int int int int
  | Unexpected_value string

record world =
  writes :: "hub_write list"
  warnings :: "warning list"

text \<open>
  Modelled from the spec: hub.py is not among the sources. \<^verbatim>\<open>writeByName\<close> performs a
  synchronous write of a value under a type tag to a named variable; here it records the
  call and returns. A write that fails inside the hub is outside this model.
\<close>

definition write_by_name :: "string \<Rightarrow> wvalue \<Rightarrow> plctype \<Rightarrow> world \<Rightarrow> world" where
  "write_by_name name v t w =
     w\<lparr>writes := writes w @ [\<lparr>wr_name = name, wr_value = v, wr_type = t\<rparr>]\<rparr>"

definition LOGGER_warning :: "warning \<Rightarrow> world \<Rightarrow> world" where
  "LOGGER_warning msg w = w\<lparr>warnings := warnings w @ [msg]\<rparr>"

section \<open>Entities\<close>

definition STATE_KEY_BRIGHTNESS :: string where
  "STATE_KEY_BRIGHTNESS = ''brightness''"

definition STATE_KEY_RGBW_COLOR :: string where
  "STATE_KEY_RGBW_COLOR = ''rgbw_color''"

text \<open>
  const.py is not among the sources: the key of the on/off slot is taken to be the
  string below; all that is used of it is that it differs from the two keys above.
\<close>

definition STATE_KEY_STATE :: string where
  "STATE_KEY_STATE = ''state''"

datatype ColorMode = ONOFF | BRIGHTNESS | RGBW

text \<open>
  Modelled from the spec: entity.py, the base class of both adapters, is not among the
  sources. An entity holds the name of its status variable, its name, its state
  dictionary, and the subscriptions it has registered with the hub: the variable, its
  type tag and the key of the slot that the subscription's callback updates.
\<close>

record subscription =
  sub_var :: string
  sub_type :: plctype
  sub_key :: string

record AdsEntity =
  state_dict :: "string \<rightharpoonup> pyval"
  ads_var :: string
  attr_name :: string
  subscriptions :: "subscription list"

text \<open>
  Modelled from the spec: the constructor of the base class, which entity.py would hold.
  The on/off slot starts absent (never notified) and nothing is subscribed yet.
\<close>

definition AdsEntity_init :: "string \<Rightarrow> string \<Rightarrow> AdsEntity" where
  "AdsEntity_init name var =
     \<lparr>state_dict = [STATE_KEY_STATE \<mapsto> PNone], ads_var = var, attr_name = name,
      subscriptions = []\<rparr>"

text \<open>
  Modelled from the spec: \<^verbatim>\<open>async_initialize_device\<close> subscribes to a variable; the
  subscription's callback updates the corresponding slot of the state dictionary.
\<close>

definition async_initialize_device ::
  "string \<Rightarrow> plctype \<Rightarrow> string \<Rightarrow> 'a AdsEntity_scheme \<Rightarrow> 'a AdsEntity_scheme" where
  "async_initialize_device var t key e =
     e\<lparr>subscriptions := subscriptions e @ [\<lparr>sub_var = var, sub_type = t, sub_key = key\<rparr>]\<rparr>"

text \<open>
  Modelled from the spec: the callback of a subscription stores the notified value,
  as it is, in the slot of the subscription's key.
\<close>

definition callback_update :: "string \<Rightarrow> pyval \<Rightarrow> 'a AdsEntity_scheme \<Rightarrow> 'a AdsEntity_scheme" where
  "callback_update key v e = e\<lparr>state_dict := (state_dict e)(key \<mapsto> v)\<rparr>"

text \<open>
  Modelled from the spec: the hub notifies a value through the \<open>i\<close>-th subscription of
  the entity and so runs its callback; the hub holds no other subscription of the entity.
\<close>

definition notify :: "nat \<Rightarrow> pyval \<Rightarrow> 'a AdsEntity_scheme \<Rightarrow> 'a AdsEntity_scheme" where
  "notify i v e =
     (if i < length (subscriptions e)
      then callback_update (sub_key (subscriptions e ! i)) v e
      else e)"

text \<open>
  Modelled from the spec: a run of notifications, oldest first, each given as the index
  of its subscription and the value notified.
\<close>

fun notify_all :: "(nat \<times> pyval) list \<Rightarrow> 'a AdsEntity_scheme \<Rightarrow> 'a AdsEntity_scheme" where
  "notify_all [] e = e"
| "notify_all ((i, v) # evs) e = notify_all evs (notify i v e)"

subsection \<open>The light\<close>

record AdsLight = AdsEntity +
  ads_var_brightness :: "string option"
  ads_var_rgbw_color :: "string option"
  attr_color_mode :: ColorMode
  attr_supported_color_modes :: "ColorMode set"

definition AdsLight_init ::
  "string \<Rightarrow> string option \<Rightarrow> string option \<Rightarrow> string \<Rightarrow> AdsLight" where
  "AdsLight_init ads_var_enable var_brightness var_rgbw_color name =
     (let e = AdsEntity_init name ads_var_enable;
          sd = (state_dict e)(STATE_KEY_BRIGHTNESS \<mapsto> PNone);
          sd = sd(STATE_KEY_RGBW_COLOR \<mapsto> PNone);
          mode = (if var_rgbw_color \<noteq> None then RGBW
                  else if var_brightness \<noteq> None then BRIGHTNESS
                  else ONOFF)
      in AdsEntity.extend (e\<lparr>state_dict := sd\<rparr>)
           (AdsLight.fields var_brightness var_rgbw_color mode {mode}))"

definition AdsLight_async_added_to_hass :: "AdsLight \<Rightarrow> AdsLight" where
  "AdsLight_async_added_to_hass self =
     (let self = async_initialize_device (ads_var self) PLCTYPE_BOOL STATE_KEY_STATE self;
          self = (case ads_var_brightness self of
                    Some b \<Rightarrow> async_initialize_device b PLCTYPE_UINT STATE_KEY_BRIGHTNESS self
                  | None \<Rightarrow> self);
          self = (case ads_var_rgbw_color self of
                    Some c \<Rightarrow>
                      async_initialize_device c (PLCTYPE_ARR_UINT 4) STATE_KEY_RGBW_COLOR self
                  | None \<Rightarrow> self)
      in self)"

text \<open>The property \<^verbatim>\<open>brightness\<close>: the slot as it is; a missing key raises KeyError.\<close>

definition brightness :: "AdsLight \<Rightarrow> pyerr + pyval" where
  "brightness self =
     (case state_dict self STATE_KEY_BRIGHTNESS of
        None \<Rightarrow> Inl KeyError
      | Some v \<Rightarrow> Inr v)"

definition clamp :: "int \<Rightarrow> int" where
  "clamp v = max 0 (min 255 v)"

text \<open>
  The property \<^verbatim>\<open>rgbw_color\<close>. The four coercions run from left to right and the first
  one that raises decides the exception; the \<^verbatim>\<open>except\<close> clause catches ValueError and
  TypeError and lets any other exception through.
\<close>

definition int4 ::
  "(string \<Rightarrow> int option) \<Rightarrow> pyval list \<Rightarrow> pyerr + (int \<times> int \<times> int \<times> int)" where
  "int4 parse xs =
     (case py_int parse (xs ! 0) of Inl e \<Rightarrow> Inl e | Inr r \<Rightarrow>
     (case py_int parse (xs ! 1) of Inl e \<Rightarrow> Inl e | Inr g \<Rightarrow>
     (case py_int parse (xs ! 2) of Inl e \<Rightarrow> Inl e | Inr b \<Rightarrow>
     (case py_int parse (xs ! 3) of Inl e \<Rightarrow> Inl e | Inr w \<Rightarrow> Inr (r, g, b, w)))))"

fun is_seq4 :: "pyval \<Rightarrow> pyval list option" where
  "is_seq4 (PTuple xs) = (if length xs = 4 then Some xs else None)"
| "is_seq4 (PList xs) = (if length xs = 4 then Some xs else None)"
| "is_seq4 _ = None"

definition rgbw_color ::
  "(string \<Rightarrow> int option) \<Rightarrow> AdsLight \<Rightarrow> world
     \<Rightarrow> (pyerr + (int \<times> int \<times> int \<times> int) option) \<times> world" where
  "rgbw_color parse self wd =
     (case state_dict self STATE_KEY_RGBW_COLOR of
        None \<Rightarrow> (Inl KeyError, wd)
      | Some rgbw \<Rightarrow>
          if rgbw = PNone then (Inr None, wd)
          else
            (case is_seq4 rgbw of
               Some xs \<Rightarrow>
                 (case int4 parse xs of
                    Inl e \<Rightarrow>
                      if e = ValueError \<or> e = TypeError
                      then (Inr None, LOGGER_warning (Non_integer_values rgbw) wd)
                      else (Inl e, wd)
                  | Inr (r, g, b, w) \<Rightarrow>
                      let wd = (if \<not> list_all (\<lambda>v. 0 \<le> v \<and> v \<le> 255) [r, g, b, w]
                                then LOGGER_warning (Values_out_of_range r g b w) wd
                                else wd)
                      in (Inr (Some (clamp r, clamp g, clamp b, clamp w)), wd))
             | None \<Rightarrow> (Inr None, LOGGER_warning (Unexpected_value (py_type rgbw)) wd)))"

text \<open>
  The keyword arguments of a command, as the host passes them: a brightness and a
  sequence of integers for the colour, each of them optional. \<^verbatim>\<open>kwargs.get\<close> gives
  \<^verbatim>\<open>None\<close> for a missing key.
\<close>

record kwargs =
  ATTR_BRIGHTNESS :: "int option"
  ATTR_RGBW_COLOR :: "int list option"

text \<open>
  \<^verbatim>\<open>PLCTYPE_ARR_UINT(4)(*rgbw_color)\<close>: an array of unsigned 16-bit cells; a cell keeps
  its integer modulo \<open>2 ^ 16\<close>.
\<close>

definition arr_uint :: "int list \<Rightarrow> 16 word list" where
  "arr_uint vs = map word_of_int vs"

definition AdsLight_turn_on :: "AdsLight \<Rightarrow> kwargs \<Rightarrow> world \<Rightarrow> world" where
  "AdsLight_turn_on self kw wd =
     (let wd = write_by_name (ads_var self) (WBool True) PLCTYPE_BOOL wd;
          wd = (case (ads_var_brightness self, ATTR_BRIGHTNESS kw) of
                  (Some var, Some b) \<Rightarrow> write_by_name var (WInt b) PLCTYPE_UINT wd
                | _ \<Rightarrow> wd);
          wd = (case (ads_var_rgbw_color self, ATTR_RGBW_COLOR kw) of
                  (Some var, Some c) \<Rightarrow>
                    if length c = 4
                    then write_by_name var (WArr (arr_uint c)) (PLCTYPE_ARR_UINT 4) wd
                    else wd
                | _ \<Rightarrow> wd)
      in wd)"

definition AdsLight_turn_off :: "AdsLight \<Rightarrow> kwargs \<Rightarrow> world \<Rightarrow> world" where
  "AdsLight_turn_off self kw wd = write_by_name (ads_var self) (WBool False) PLCTYPE_BOOL wd"

subsection \<open>The switch\<close>

record AdsSwitch = AdsEntity +
  ads_var_turn_on :: "string option"
  ads_var_turn_off :: "string option"

definition AdsSwitch_init ::
  "string \<Rightarrow> string option \<Rightarrow> string option \<Rightarrow> string \<Rightarrow> AdsSwitch" where
  "AdsSwitch_init ads_var_is_on var_turn_on var_turn_off name =
     AdsEntity.extend (AdsEntity_init name ads_var_is_on)
       (AdsSwitch.fields var_turn_on var_turn_off)"

definition AdsSwitch_turn_on :: "AdsSwitch \<Rightarrow> kwargs \<Rightarrow> world \<Rightarrow> world" where
  "AdsSwitch_turn_on self kw wd =
     (case ads_var_turn_on self of
        Some var \<Rightarrow> write_by_name var (WBool True) PLCTYPE_BOOL wd
      | None \<Rightarrow> write_by_name (ads_var self) (WBool True) PLCTYPE_BOOL wd)"

definition AdsSwitch_turn_off :: "AdsSwitch \<Rightarrow> kwargs \<Rightarrow> world \<Rightarrow> world" where
  "AdsSwitch_turn_off self kw wd =
     (case ads_var_turn_off self of
        Some var \<Rightarrow> write_by_name var (WBool True) PLCTYPE_BOOL wd
      | None \<Rightarrow> write_by_name (ads_var self) (WBool False) PLCTYPE_BOOL wd)"

text \<open>The writes that a command issued: those of the world after it beyond those before.\<close>

definition issued :: "world \<Rightarrow> world \<Rightarrow> hub_write list" where
  "issued before after = drop (length (writes before)) (writes after)"

section \<open>Notions of the specification\<close>

text \<open>
  The specification's clamp of a channel to \<open>[0, 255]\<close>, written by cases, to be compared
  with the \<open>clamp\<close> of the source.
\<close>

definition nearest_in_range :: "int \<Rightarrow> int" where
  "nearest_in_range v = (if v < 0 then 0 else if 255 < v then 255 else v)"

text \<open>
  The last value notified through subscription \<open>i\<close> in a run of notifications, oldest
  first; \<^verbatim>\<open>None\<close> when no notification came through it.
\<close>

definition last_notified :: "nat \<Rightarrow> (nat \<times> pyval) list \<Rightarrow> pyval" where
  "last_notified i evs =
     (let vs = map snd (filter (\<lambda>ev. fst ev = i) evs)
      in if vs = [] then PNone else last vs)"

text \<open>
  The place of a write in the order of a turn-on command, read off its type tag: the
  status write, then the brightness write, then the colour write.
\<close>

fun stage :: "plctype \<Rightarrow> nat" where
  "stage PLCTYPE_BOOL = 0"
| "stage PLCTYPE_UINT = 1"
| "stage (PLCTYPE_ARR_UINT n) = 2"

section \<open>Basic facts\<close>

lemma keys_distinct:
  "STATE_KEY_BRIGHTNESS \<noteq> STATE_KEY_RGBW_COLOR"
  "STATE_KEY_STATE \<noteq> STATE_KEY_BRIGHTNESS"
  "STATE_KEY_STATE \<noteq> STATE_KEY_RGBW_COLOR"
  by (simp_all add: STATE_KEY_BRIGHTNESS_def STATE_KEY_RGBW_COLOR_def STATE_KEY_STATE_def)

lemma state_dict_callback_update:
  "state_dict (callback_update key v e) = (state_dict e)(key \<mapsto> v)"
  by (simp add: callback_update_def)

lemma subscriptions_callback_update:
  "subscriptions (callback_update key v e) = subscriptions e"
  by (simp add: callback_update_def)

lemma subscriptions_notify: "subscriptions (notify i v e) = subscriptions e"
  by (simp add: notify_def subscriptions_callback_update)

lemma subscriptions_notify_all: "subscriptions (notify_all evs e) = subscriptions e"
  by (induction evs arbitrary: e) (auto simp add: subscriptions_notify)

lemma notify_all_append: "notify_all (evs @ evs') e = notify_all evs' (notify_all evs e)"
  by (induction evs arbitrary: e) auto

lemma clamp_nearest: "clamp v = nearest_in_range v"
  by (simp add: clamp_def nearest_in_range_def)

section \<open>Reading the colour\<close>

text \<open>The exceptions that \<^verbatim>\<open>int()\<close> can raise on a stored value.\<close>

lemma py_int_error_kinds:
  "py_int parse v = Inl e \<Longrightarrow> e = ValueError \<or> e = TypeError \<or> e = OverflowError"
  by (induction parse v rule: py_int.induct) (auto split: option.splits)

lemma int4_error_kinds:
  "int4 parse xs = Inl e \<Longrightarrow> e = ValueError \<or> e = TypeError \<or> e = OverflowError"
  unfolding int4_def
  by (auto split: sum.splits dest: py_int_error_kinds)

text \<open>
  A stored value that is not a tuple or list of four elements reads as absent, with one
  warning; a stored \<^verbatim>\<open>None\<close> reads as absent with no warning.
\<close>

lemma rgbw_color_unexpected_shape:
  assumes "is_seq4 s = None"
  shows "rgbw_color parse (callback_update STATE_KEY_RGBW_COLOR s self) wd =
     (if s = PNone then (Inr None, wd)
      else (Inr None, wd\<lparr>warnings := warnings wd @ [Unexpected_value (py_type s)]\<rparr>))"
  using assms
  by (simp add: rgbw_color_def state_dict_callback_update LOGGER_warning_def)

text \<open>
  A sequence of four elements of which the first that fails to coerce raises ValueError
  or TypeError reads as absent, with one warning.
\<close>

lemma rgbw_color_caught:
  assumes "is_seq4 s = Some xs" and "int4 parse xs = Inl e" and "e \<noteq> OverflowError"
  shows "rgbw_color parse (callback_update STATE_KEY_RGBW_COLOR s self) wd =
     (Inr None, wd\<lparr>warnings := warnings wd @ [Non_integer_values s]\<rparr>)"
proof -
  have "s \<noteq> PNone" using assms(1) by auto
  moreover have "e = ValueError \<or> e = TypeError"
    using int4_error_kinds [OF assms(2)] assms(3) by simp
  ultimately show ?thesis
    using assms(1,2)
    by (simp add: rgbw_color_def state_dict_callback_update LOGGER_warning_def)
qed

text \<open>The only exception that leaves the colour read of a filled slot is OverflowError.\<close>

lemma rgbw_color_only_overflow_escapes:
  assumes "fst (rgbw_color parse (callback_update STATE_KEY_RGBW_COLOR s self) wd) = Inl e"
  shows "e = OverflowError"
  using assms int4_error_kinds [of parse _ e]
  unfolding rgbw_color_def state_dict_callback_update
  by (auto split: if_splits option.splits sum.splits prod.splits simp add: Let_def)

text \<open>
  C1. The colour read never raises on a stored sample: a sample that is not a sequence of
  four elements, or one of whose elements fails integer coercion, reads as absent with a
  warning. The source catches ValueError and TypeError around the four coercions, but
  \<^verbatim>\<open>int()\<close> of an infinite float raises OverflowError, which is neither: on the stored
  list \<^verbatim>\<open>[inf, 0, 0, 0]\<close> the read raises OverflowError and logs nothing.
\<close>

theorem rgbw_color_raises_on_infinite_float:
  "rgbw_color parse
     (callback_update STATE_KEY_RGBW_COLOR
        (PList [PFloat PosInf, PInt 0, PInt 0, PInt 0]) self) wd =
   (Inl OverflowError, wd)"
  by (simp add: rgbw_color_def int4_def state_dict_callback_update)

text \<open>
  C2. For every tuple or list of four integers that all lie in \<open>[0, 255]\<close>, the colour
  read returns exactly these four values, in order, and logs nothing.
\<close>

theorem rgbw_color_in_range_unchanged:
  assumes "sample = PTuple [PInt r, PInt g, PInt b, PInt w]
         \<or> sample = PList [PInt r, PInt g, PInt b, PInt w]"
    and "0 \<le> r \<and> r \<le> 255" and "0 \<le> g \<and> g \<le> 255"
    and "0 \<le> b \<and> b \<le> 255" and "0 \<le> w \<and> w \<le> 255"
  shows "rgbw_color parse (callback_update STATE_KEY_RGBW_COLOR sample self) wd =
     (Inr (Some (r, g, b, w)), wd)"
proof -
  have seq: "is_seq4 sample = Some [PInt r, PInt g, PInt b, PInt w]" and nn: "sample \<noteq> PNone"
    using assms(1) by auto
  have i4: "int4 parse [PInt r, PInt g, PInt b, PInt w] = Inr (r, g, b, w)"
    by (simp add: int4_def)
  have inside: "list_all (\<lambda>v. 0 \<le> v \<and> v \<le> 255) [r, g, b, w]"
    using assms(2-5) by simp
  have "clamp r = r" "clamp g = g" "clamp b = b" "clamp w = w"
    using assms(2-5) by (simp_all add: clamp_def)
  then show ?thesis
    unfolding rgbw_color_def state_dict_callback_update
    using seq nn i4 inside by simp
qed

theorem rgbw_color_in_range_unchanged_witness:
  "rgbw_color (\<lambda>s. None)
     (callback_update STATE_KEY_RGBW_COLOR (PList [PInt 0, PInt 17, PInt 128, PInt 255])
        (AdsLight_init ''light'' None (Some ''color'') ''ADS Light''))
     \<lparr>writes = [], warnings = []\<rparr> =
   (Inr (Some (0, 17, 128, 255)), \<lparr>writes = [], warnings = []\<rparr>)"
  using rgbw_color_in_range_unchanged
    [of "PList [PInt 0, PInt 17, PInt 128, PInt 255]" 0 17 128 255
      "\<lambda>s. None" "AdsLight_init ''light'' None (Some ''color'') ''ADS Light''"
      "\<lparr>writes = [], warnings = []\<rparr>"]
  by simp

text \<open>
  C3. For every tuple or list of four integers of which at least one lies outside
  \<open>[0, 255]\<close>, the colour read returns the four values, each clamped to \<open>[0, 255]\<close>, and
  logs one warning that names the four values. The witness is the scenario of the
  sample \<open>(300, -5, 128, 256)\<close>, read as \<open>(255, 0, 128, 255)\<close> with one warning.
\<close>

theorem rgbw_color_out_of_range_clamped:
  assumes "sample = PTuple [PInt r, PInt g, PInt b, PInt w]
         \<or> sample = PList [PInt r, PInt g, PInt b, PInt w]"
    and "\<not> (0 \<le> r \<and> r \<le> 255 \<and> 0 \<le> g \<and> g \<le> 255 \<and> 0 \<le> b \<and> b \<le> 255 \<and> 0 \<le> w \<and> w \<le> 255)"
  shows "rgbw_color parse (callback_update STATE_KEY_RGBW_COLOR sample self) wd =
     (Inr (Some (nearest_in_range r, nearest_in_range g, nearest_in_range b,
                 nearest_in_range w)),
      wd\<lparr>warnings := warnings wd @ [Values_out_of_range r g b w]\<rparr>)"
proof -
  have seq: "is_seq4 sample = Some [PInt r, PInt g, PInt b, PInt w]" and nn: "sample \<noteq> PNone"
    using assms(1) by auto
  have i4: "int4 parse [PInt r, PInt g, PInt b, PInt w] = Inr (r, g, b, w)"
    by (simp add: int4_def)
  have out: "\<not> list_all (\<lambda>v. 0 \<le> v \<and> v \<le> 255) [r, g, b, w]"
    using assms(2) by simp
  show ?thesis
    unfolding rgbw_color_def state_dict_callback_update
    using seq nn i4 out by (simp add: clamp_nearest LOGGER_warning_def)
qed

theorem rgbw_color_out_of_range_clamped_witness:
  "rgbw_color (\<lambda>s. None)
     (callback_update STATE_KEY_RGBW_COLOR (PTuple [PInt 300, PInt (- 5), PInt 128, PInt 256])
        (AdsLight_init ''light'' None (Some ''color'') ''ADS Light''))
     \<lparr>writes = [], warnings = []\<rparr> =
   (Inr (Some (255, 0, 128, 255)),
    \<lparr>writes = [], warnings = [Values_out_of_range 300 (- 5) 128 256]\<rparr>)"
  using rgbw_color_out_of_range_clamped
    [of "PTuple [PInt 300, PInt (- 5), PInt 128, PInt 256]" 300 "- 5" 128 256
      "\<lambda>s. None" "AdsLight_init ''light'' None (Some ''color'') ''ADS Light''"
      "\<lparr>writes = [], warnings = []\<rparr>"]
  by (simp add: nearest_in_range_def)

section \<open>Construction of a light\<close>

text \<open>
  C4. The capability mode of a light follows from which optional variables were given,
  and from nothing else: RGBW when a colour variable is given, with or without a
  brightness variable; brightness when only a brightness variable is given; on/off when
  neither is. The set of supported modes holds this mode alone.
\<close>

theorem AdsLight_init_color_mode:
  "attr_color_mode (AdsLight_init var vb (Some c) name) = RGBW \<and>
   attr_supported_color_modes (AdsLight_init var vb (Some c) name) = {RGBW} \<and>
   attr_color_mode (AdsLight_init var (Some b) None name) = BRIGHTNESS \<and>
   attr_supported_color_modes (AdsLight_init var (Some b) None name) = {BRIGHTNESS} \<and>
   attr_color_mode (AdsLight_init var None None name) = ONOFF \<and>
   attr_supported_color_modes (AdsLight_init var None None name) = {ONOFF}"
  by (simp add: AdsLight_init_def AdsEntity.defs AdsLight.defs Let_def)

section \<open>Commands of the light\<close>

lemma AdsLight_turn_on_writes:
  "writes (AdsLight_turn_on self kw wd) = writes wd @
     \<lparr>wr_name = ads_var self, wr_value = WBool True, wr_type = PLCTYPE_BOOL\<rparr> #
     (case ads_var_brightness self of None \<Rightarrow> [] | Some var \<Rightarrow>
        (case ATTR_BRIGHTNESS kw of None \<Rightarrow> [] | Some b \<Rightarrow>
           [\<lparr>wr_name = var, wr_value = WInt b, wr_type = PLCTYPE_UINT\<rparr>])) @
     (case ads_var_rgbw_color self of None \<Rightarrow> [] | Some var \<Rightarrow>
        (case ATTR_RGBW_COLOR kw of None \<Rightarrow> [] | Some c \<Rightarrow>
           if length c = 4
           then [\<lparr>wr_name = var, wr_value = WArr (arr_uint c), wr_type = PLCTYPE_ARR_UINT 4\<rparr>]
           else []))"
  by (simp add: AdsLight_turn_on_def write_by_name_def Let_def split: option.splits)

lemma AdsLight_turn_on_warnings: "warnings (AdsLight_turn_on self kw wd) = warnings wd"
  by (simp add: AdsLight_turn_on_def write_by_name_def Let_def split: option.splits)

text \<open>The cells of the array written read back the colour given when it fits 16 bits.\<close>

lemma arr_uint_in_range:
  "list_all (\<lambda>v. 0 \<le> v \<and> v < 65536) c \<Longrightarrow> map uint (arr_uint c) = c"
  by (induction c) (simp_all add: arr_uint_def uint_word_of_int take_bit_int_eq_self)

text \<open>
  C5. The writes that a turn-on command issues are exactly: one write of true to the
  status variable, always; then one write of the brightness given to the brightness
  variable, if and only if a brightness variable is configured and a brightness was
  given, whatever the capability mode; then one write of the colour given, its four
  integers each as an unsigned 16-bit cell (\<open>word_of_int\<close>) and in the order given, to the
  colour variable, if and only if a colour variable is configured, a colour was given
  and it has exactly four elements. Earlier writes stay as they were. In particular a
  light with neither optional variable issues the status write alone, and a light with
  a brightness variable that is given a brightness and no colour issues exactly the
  status write and the brightness write.
\<close>

theorem AdsLight_turn_on_writes_exactly:
  "issued wd (AdsLight_turn_on self kw wd) =
     \<lparr>wr_name = ads_var self, wr_value = WBool True, wr_type = PLCTYPE_BOOL\<rparr> #
     (case ads_var_brightness self of None \<Rightarrow> [] | Some var \<Rightarrow>
        (case ATTR_BRIGHTNESS kw of None \<Rightarrow> [] | Some b \<Rightarrow>
           [\<lparr>wr_name = var, wr_value = WInt b, wr_type = PLCTYPE_UINT\<rparr>])) @
     (case ads_var_rgbw_color self of None \<Rightarrow> [] | Some var \<Rightarrow>
        (case ATTR_RGBW_COLOR kw of None \<Rightarrow> [] | Some c \<Rightarrow>
           if length c = 4
           then [\<lparr>wr_name = var, wr_value = WArr (map word_of_int c), wr_type = PLCTYPE_ARR_UINT 4\<rparr>]
           else []))
   \<and> writes (AdsLight_turn_on self kw wd) = writes wd @ issued wd (AdsLight_turn_on self kw wd)
   \<and> issued wd
        (AdsLight_turn_on (self\<lparr>ads_var_brightness := None, ads_var_rgbw_color := None\<rparr>) kw wd) =
       [\<lparr>wr_name = ads_var self, wr_value = WBool True, wr_type = PLCTYPE_BOOL\<rparr>]
   \<and> issued wd
        (AdsLight_turn_on (self\<lparr>ads_var_brightness := Some var_b\<rparr>)
           (kw\<lparr>ATTR_BRIGHTNESS := Some v, ATTR_RGBW_COLOR := None\<rparr>) wd) =
       [\<lparr>wr_name = ads_var self, wr_value = WBool True, wr_type = PLCTYPE_BOOL\<rparr>,
        \<lparr>wr_name = var_b, wr_value = WInt v, wr_type = PLCTYPE_UINT\<rparr>]"
  by (simp add: issued_def AdsLight_turn_on_writes arr_uint_def split: option.splits)

text \<open>
  C6. When a colour variable is configured and the colour given does not have exactly
  four elements, a turn-on command issues the writes it would issue with no colour
  given: no write of an array, the write of true to the status variable first, and no
  warning. The command has no exception to raise on such a colour.
\<close>

theorem AdsLight_turn_on_drops_malformed_color:
  assumes "ads_var_rgbw_color self = Some var"
    and "ATTR_RGBW_COLOR kw = Some c"
    and "length c \<noteq> 4"
  shows "issued wd (AdsLight_turn_on self kw wd) =
           issued wd (AdsLight_turn_on self (kw\<lparr>ATTR_RGBW_COLOR := None\<rparr>) wd)
     \<and> filter (\<lambda>w. wr_type w = PLCTYPE_ARR_UINT 4) (issued wd (AdsLight_turn_on self kw wd)) = []
     \<and> hd (issued wd (AdsLight_turn_on self kw wd)) =
         \<lparr>wr_name = ads_var self, wr_value = WBool True, wr_type = PLCTYPE_BOOL\<rparr>
     \<and> warnings (AdsLight_turn_on self kw wd) = warnings wd"
  using assms
  by (simp add: issued_def AdsLight_turn_on_writes AdsLight_turn_on_warnings
      split: option.splits)

theorem AdsLight_turn_on_drops_malformed_color_witness:
  "issued \<lparr>writes = [], warnings = []\<rparr>
     (AdsLight_turn_on (AdsLight_init ''light'' None (Some ''color'') ''ADS Light'')
        \<lparr>ATTR_BRIGHTNESS = None, ATTR_RGBW_COLOR = Some [255, 0, 0]\<rparr>
        \<lparr>writes = [], warnings = []\<rparr>) =
   [\<lparr>wr_name = ''light'', wr_value = WBool True, wr_type = PLCTYPE_BOOL\<rparr>]
   \<and> warnings
     (AdsLight_turn_on (AdsLight_init ''light'' None (Some ''color'') ''ADS Light'')
        \<lparr>ATTR_BRIGHTNESS = None, ATTR_RGBW_COLOR = Some [255, 0, 0]\<rparr>
        \<lparr>writes = [], warnings = []\<rparr>) = []"
  using AdsLight_turn_on_drops_malformed_color
    [of "AdsLight_init ''light'' None (Some ''color'') ''ADS Light''" "''color''"
      "\<lparr>ATTR_BRIGHTNESS = None, ATTR_RGBW_COLOR = Some [255, 0, 0]\<rparr>" "[255, 0, 0]"
      "\<lparr>writes = [], warnings = []\<rparr>"]
  by (simp add: AdsLight_init_def AdsEntity_init_def AdsEntity.defs AdsLight.defs Let_def
      AdsLight_turn_on_def write_by_name_def issued_def)

text \<open>
  C8. A turn-off command of a light, whatever its arguments and whatever variables are
  configured, issues exactly one write: false, as a boolean, to the status variable.
  Earlier writes stay as they were, and no write of a brightness or of a colour is
  issued.
\<close>

theorem AdsLight_turn_off_writes:
  "issued wd (AdsLight_turn_off self kw wd) =
     [\<lparr>wr_name = ads_var self, wr_value = WBool False, wr_type = PLCTYPE_BOOL\<rparr>]
   \<and> writes (AdsLight_turn_off self kw wd) = writes wd @ issued wd (AdsLight_turn_off self kw wd)
   \<and> filter (\<lambda>w. wr_type w \<noteq> PLCTYPE_BOOL) (issued wd (AdsLight_turn_off self kw wd)) = []"
  by (simp add: AdsLight_turn_off_def write_by_name_def issued_def)

text \<open>
  C10. The writes of a turn-on command are issued in a fixed order: the first is the
  write of true to the status variable, and along the writes issued the stages strictly
  increase, so the status write precedes the brightness write and the colour write, and
  the brightness write precedes the colour write.
\<close>

theorem AdsLight_turn_on_write_order:
  "hd (issued wd (AdsLight_turn_on self kw wd)) =
     \<lparr>wr_name = ads_var self, wr_value = WBool True, wr_type = PLCTYPE_BOOL\<rparr>
   \<and> sorted_wrt (\<lambda>a b. stage (wr_type a) < stage (wr_type b))
       (issued wd (AdsLight_turn_on self kw wd))"
  by (simp add: issued_def AdsLight_turn_on_writes split: option.splits)

section \<open>Commands of the switch\<close>

text \<open>
  C7. A turn-off command of a switch issues exactly one write. With a turn-off variable
  configured it is the write of true to that variable, and no write goes to the status
  variable when the two variables are distinct; with none configured it is the write of
  false to the status variable.
\<close>

theorem AdsSwitch_turn_off_writes:
  "(ads_var_turn_off self = Some var \<longrightarrow>
      issued wd (AdsSwitch_turn_off self kw wd) =
        [\<lparr>wr_name = var, wr_value = WBool True, wr_type = PLCTYPE_BOOL\<rparr>] \<and>
      (var \<noteq> ads_var self \<longrightarrow>
        filter (\<lambda>w. wr_name w = ads_var self) (issued wd (AdsSwitch_turn_off self kw wd)) = []))
   \<and> (ads_var_turn_off self = None \<longrightarrow>
      issued wd (AdsSwitch_turn_off self kw wd) =
        [\<lparr>wr_name = ads_var self, wr_value = WBool False, wr_type = PLCTYPE_BOOL\<rparr>])"
  by (simp add: AdsSwitch_turn_off_def write_by_name_def issued_def)

theorem AdsSwitch_turn_off_writes_witness:
  "issued \<lparr>writes = [], warnings = []\<rparr>
     (AdsSwitch_turn_off (AdsSwitch_init ''switch'' None (Some ''switch_off'') ''ADS Switch'')
        \<lparr>ATTR_BRIGHTNESS = None, ATTR_RGBW_COLOR = None\<rparr> \<lparr>writes = [], warnings = []\<rparr>) =
     [\<lparr>wr_name = ''switch_off'', wr_value = WBool True, wr_type = PLCTYPE_BOOL\<rparr>]
   \<and> filter (\<lambda>w. wr_name w = ''switch'')
       (issued \<lparr>writes = [], warnings = []\<rparr>
         (AdsSwitch_turn_off (AdsSwitch_init ''switch'' None (Some ''switch_off'') ''ADS Switch'')
            \<lparr>ATTR_BRIGHTNESS = None, ATTR_RGBW_COLOR = None\<rparr> \<lparr>writes = [], warnings = []\<rparr>)) = []
   \<and> issued \<lparr>writes = [], warnings = []\<rparr>
     (AdsSwitch_turn_off (AdsSwitch_init ''switch'' None None ''ADS Switch'')
        \<lparr>ATTR_BRIGHTNESS = None, ATTR_RGBW_COLOR = None\<rparr> \<lparr>writes = [], warnings = []\<rparr>) =
     [\<lparr>wr_name = ''switch'', wr_value = WBool False, wr_type = PLCTYPE_BOOL\<rparr>]"
  using
    AdsSwitch_turn_off_writes
      [of "AdsSwitch_init ''switch'' None (Some ''switch_off'') ''ADS Switch''" "''switch_off''"
        "\<lparr>writes = [], warnings = []\<rparr>" "\<lparr>ATTR_BRIGHTNESS = None, ATTR_RGBW_COLOR = None\<rparr>"]
    AdsSwitch_turn_off_writes
      [of "AdsSwitch_init ''switch'' None None ''ADS Switch''" "''switch_off''"
        "\<lparr>writes = [], warnings = []\<rparr>" "\<lparr>ATTR_BRIGHTNESS = None, ATTR_RGBW_COLOR = None\<rparr>"]
  by (simp add: AdsSwitch_init_def AdsEntity_init_def AdsEntity.defs AdsSwitch.defs)

section \<open>Reading the brightness\<close>

lemma last_notified_Nil: "last_notified i [] = PNone"
  by (simp add: last_notified_def)

lemma last_notified_snoc:
  "last_notified i (evs @ [(j, v)]) = (if j = i then v else last_notified i evs)"
  by (simp add: last_notified_def)

text \<open>
  A slot that starts empty and is the slot of subscription \<open>i\<close> alone holds, after a run
  of notifications, the last value that came through \<open>i\<close>.
\<close>

lemma slot_after_notifications:
  assumes "i < length (subscriptions e)"
    and "\<And>j. j < length (subscriptions e) \<Longrightarrow> (sub_key (subscriptions e ! j) = key) = (j = i)"
    and "state_dict e key = Some PNone"
  shows "state_dict (notify_all evs e) key = Some (last_notified i evs)"
proof (induction evs rule: rev_induct)
  case Nil
  show ?case using assms(3) by (simp add: last_notified_Nil)
next
  case (snoc ev evs)
  obtain j v where ev: "ev = (j, v)" by (cases ev)
  let ?e = "notify_all evs e"
  have subs: "subscriptions ?e = subscriptions e"
    by (rule subscriptions_notify_all)
  have step: "notify_all (evs @ [(j, v)]) e = notify j v ?e"
    by (simp add: notify_all_append)
  show ?case
  proof (cases "j < length (subscriptions e)")
    case True
    with assms(2) [of j] snoc show ?thesis
      by (auto simp add: step ev notify_def subs state_dict_callback_update last_notified_snoc)
  next
    case False
    with assms(1) have "j \<noteq> i" by auto
    with False snoc show ?thesis
      by (simp add: step ev notify_def subs last_notified_snoc)
  qed
qed

text \<open>A slot that is the slot of no subscription is left alone by every notification.\<close>

lemma slot_without_subscription:
  assumes "\<And>j. j < length (subscriptions e) \<Longrightarrow> sub_key (subscriptions e ! j) \<noteq> key"
  shows "state_dict (notify_all evs e) key = state_dict e key"
proof (induction evs rule: rev_induct)
  case Nil
  show ?case by simp
next
  case (snoc ev evs)
  obtain j v where ev: "ev = (j, v)" by (cases ev)
  have subs: "subscriptions (notify_all evs e) = subscriptions e"
    by (rule subscriptions_notify_all)
  show ?case
    using snoc assms [of j]
    by (auto simp add: notify_all_append ev notify_def subs state_dict_callback_update)
qed

text \<open>A light after startup: its subscriptions, in the order of registration, and its slots.\<close>

lemma started_subscriptions:
  "subscriptions (AdsLight_async_added_to_hass (AdsLight_init var vb vc name)) =
     \<lparr>sub_var = var, sub_type = PLCTYPE_BOOL, sub_key = STATE_KEY_STATE\<rparr> #
     (case vb of None \<Rightarrow> []
      | Some b \<Rightarrow> [\<lparr>sub_var = b, sub_type = PLCTYPE_UINT, sub_key = STATE_KEY_BRIGHTNESS\<rparr>]) @
     (case vc of None \<Rightarrow> []
      | Some c \<Rightarrow>
          [\<lparr>sub_var = c, sub_type = PLCTYPE_ARR_UINT 4, sub_key = STATE_KEY_RGBW_COLOR\<rparr>])"
  by (simp add: AdsLight_async_added_to_hass_def AdsLight_init_def AdsEntity_init_def
      async_initialize_device_def AdsEntity.defs AdsLight.defs Let_def split: option.splits)

lemma started_state_dict:
  "state_dict (AdsLight_async_added_to_hass (AdsLight_init var vb vc name)) =
     [STATE_KEY_STATE \<mapsto> PNone, STATE_KEY_BRIGHTNESS \<mapsto> PNone, STATE_KEY_RGBW_COLOR \<mapsto> PNone]"
  by (simp add: AdsLight_async_added_to_hass_def AdsLight_init_def AdsEntity_init_def
      async_initialize_device_def AdsEntity.defs AdsLight.defs Let_def split: option.splits)

text \<open>
  C9. The brightness read returns the last notified brightness as it is, with no clamp
  and no check of its range: for a light with a brightness variable, started and then
  notified any run of values, it is the last value that came through the brightness
  subscription (the second one registered), and none when none came; for a light with no
  brightness variable it is none after any run of notifications; and whatever value the
  brightness callback stores is the value read.
\<close>

theorem brightness_last_notified:
  "brightness (notify_all evs (AdsLight_async_added_to_hass (AdsLight_init var (Some b) vc name)))
     = Inr (last_notified 1 evs)
   \<and> brightness (notify_all evs (AdsLight_async_added_to_hass (AdsLight_init var None vc name)))
     = Inr PNone
   \<and> brightness (callback_update STATE_KEY_BRIGHTNESS v self) = Inr v"
proof (intro conjI)
  let ?e = "AdsLight_async_added_to_hass (AdsLight_init var (Some b) vc name)"
  have "state_dict (notify_all evs ?e) STATE_KEY_BRIGHTNESS = Some (last_notified 1 evs)"
  proof (rule slot_after_notifications)
    show "1 < length (subscriptions ?e)"
      by (simp add: started_subscriptions)
    show "(sub_key (subscriptions ?e ! j) = STATE_KEY_BRIGHTNESS) = (j = 1)"
      if "j < length (subscriptions ?e)" for j
      using that keys_distinct
      by (cases vc) (auto simp add: started_subscriptions nth_Cons split: nat.splits)
    show "state_dict ?e STATE_KEY_BRIGHTNESS = Some PNone"
      using keys_distinct by (simp add: started_state_dict)
  qed
  then show "brightness (notify_all evs ?e) = Inr (last_notified 1 evs)"
    by (simp add: brightness_def)
next
  let ?e = "AdsLight_async_added_to_hass (AdsLight_init var None vc name)"
  have "state_dict (notify_all evs ?e) STATE_KEY_BRIGHTNESS = state_dict ?e STATE_KEY_BRIGHTNESS"
  proof (rule slot_without_subscription)
    show "sub_key (subscriptions ?e ! j) \<noteq> STATE_KEY_BRIGHTNESS"
      if "j < length (subscriptions ?e)" for j
      using that keys_distinct
      by (cases vc) (auto simp add: started_subscriptions nth_Cons split: nat.splits)
  qed
  then show "brightness (notify_all evs ?e) = Inr PNone"
    using keys_distinct by (simp add: brightness_def started_state_dict)
next
  show "brightness (callback_update STATE_KEY_BRIGHTNESS v self) = Inr v"
    by (simp add: brightness_def state_dict_callback_update)
qed

end
